theory Spec2Isabelle
  imports Complex_Main "HOL-Library.Multiset"
begin

section \<open>The cube state of the interactive Rubik's Cube\<close>

text \<open>
  The six face labels. In the source they are the strings \<open>'U'\<close>, \<open>'D'\<close>, \<open>'F'\<close>,
  \<open>'B'\<close>, \<open>'L'\<close>, \<open>'R'\<close>, used both as the keys of the orientation and sticker
  objects and as the values of the orientation object.
\<close>

datatype face = U | D | F | B | L | R

text \<open>
  An object with exactly the six keys \<open>U, D, F, B, L, R\<close>: the shape of
  \<open>FACE_COLORS\<close>, of a cubie's \<open>stickers\<close> (values: colour strings) and of a
  cubie's \<open>orientation\<close> (values: face labels). \<open>faceAt m f\<close> is the property
  access \<open>m[f]\<close>.
\<close>

record 'a faces =
  faceU :: 'a
  faceD :: 'a
  faceF :: 'a
  faceB :: 'a
  faceL :: 'a
  faceR :: 'a

fun faceAt :: "'a faces \<Rightarrow> face \<Rightarrow> 'a" where
  "faceAt m U = faceU m"
| "faceAt m D = faceD m"
| "faceAt m F = faceF m"
| "faceAt m B = faceB m"
| "faceAt m L = faceL m"
| "faceAt m R = faceR m"

definition FACE_COLORS :: "string faces" where
  "FACE_COLORS =
     \<lparr>faceU = ''#ffffff'', faceD = ''#ffd600'', faceF = ''#43a047'',
      faceB = ''#1976d2'', faceL = ''#ff9800'', faceR = ''#e53935''\<rparr>"

definition getInitialCubieColors :: "int \<Rightarrow> int \<Rightarrow> int \<Rightarrow> string faces" where
  "getInitialCubieColors x y z =
     \<lparr>faceU = (if y = 1 then faceU FACE_COLORS else ''#222''),
      faceD = (if y = -1 then faceD FACE_COLORS else ''#222''),
      faceF = (if z = 1 then faceF FACE_COLORS else ''#222''),
      faceB = (if z = -1 then faceB FACE_COLORS else ''#222''),
      faceL = (if x = -1 then faceL FACE_COLORS else ''#222''),
      faceR = (if x = 1 then faceR FACE_COLORS else ''#222'')\<rparr>"

text \<open>
  \<open>rotateOrientation\<close> is an object of three functions, keyed \<open>x\<close>, \<open>y\<close>, \<open>z\<close>.
  Each builds a fresh six-key object from the fields of \<open>ori\<close>.
\<close>

definition rotateOrientation_x :: "'a faces \<Rightarrow> bool \<Rightarrow> 'a faces" where
  "rotateOrientation_x ori cw =
     \<lparr>faceU = (if cw then faceB ori else faceF ori),
      faceD = (if cw then faceF ori else faceB ori),
      faceF = (if cw then faceU ori else faceD ori),
      faceB = (if cw then faceD ori else faceU ori),
      faceL = faceL ori,
      faceR = faceR ori\<rparr>"

definition rotateOrientation_y :: "'a faces \<Rightarrow> bool \<Rightarrow> 'a faces" where
  "rotateOrientation_y ori cw =
     \<lparr>faceU = faceU ori,
      faceD = faceD ori,
      faceF = (if cw then faceL ori else faceR ori),
      faceB = (if cw then faceR ori else faceL ori),
      faceL = (if cw then faceF ori else faceB ori),
      faceR = (if cw then faceB ori else faceF ori)\<rparr>"

definition rotateOrientation_z :: "'a faces \<Rightarrow> bool \<Rightarrow> 'a faces" where
  "rotateOrientation_z ori cw =
     \<lparr>faceU = (if cw then faceL ori else faceR ori),
      faceD = (if cw then faceR ori else faceL ori),
      faceF = faceF ori,
      faceB = faceB ori,
      faceL = (if cw then faceD ori else faceU ori),
      faceR = (if cw then faceU ori else faceD ori)\<rparr>"

text \<open>
  \<open>rotateOrientation[axisName]\<close> with \<open>axisName = ['x', 'y', 'z'][axis]\<close>. The
  lookup is only evaluated for a cubie that passed the slice test of
  \<open>rotateLayer\<close>, where \<open>axis\<close> is 0, 1 or 2; the last branch is \<open>axis = 2\<close>
  there.
\<close>

definition rotateOrientation :: "int \<Rightarrow> 'a faces \<Rightarrow> bool \<Rightarrow> 'a faces" where
  "rotateOrientation axis ori cw =
     (if axis = 0 then rotateOrientation_x ori cw
      else if axis = 1 then rotateOrientation_y ori cw
      else rotateOrientation_z ori cw)"

text \<open>
  A cubie. Coordinates are JavaScript numbers holding integers; they are modelled as
  \<open>int\<close> (the negation of 0 is \<open>-0\<close> in the source, which \<open>===\<close> does not
  distinguish from 0).
\<close>

record cubie =
  pos :: "int \<times> int \<times> int"
  orientation :: "face faces"
  stickers :: "string faces"
  key :: string

text \<open>Decimal printing of an integer, as a template literal does for \<open>${x}\<close>.\<close>

fun show_nat :: "nat \<Rightarrow> string" where
  "show_nat n =
     (if n < 10 then [''0123456789'' ! n]
      else show_nat (n div 10) @ [''0123456789'' ! (n mod 10)])"

declare show_nat.simps [simp del]

definition show_int :: "int \<Rightarrow> string" where
  "show_int i = (if i < 0 then CHR ''-'' # show_nat (nat (- i)) else show_nat (nat i))"

definition identity_orientation :: "face faces" where
  "identity_orientation =
     \<lparr>faceU = U, faceD = D, faceF = F, faceB = B, faceL = L, faceR = R\<rparr>"

definition solvedCubie :: "int \<Rightarrow> int \<Rightarrow> int \<Rightarrow> cubie" where
  "solvedCubie x y z =
     \<lparr>pos = (x, y, z),
      orientation = identity_orientation,
      stickers = getInitialCubieColors x y z,
      key = show_int x @ '','' @ show_int y @ '','' @ show_int z\<rparr>"

text \<open>The three nested loops, each from -1 to 1, pushing one cubie per iteration.\<close>

definition createSolvedCubeState :: "cubie list" where
  "createSolvedCubeState =
     concat (map (\<lambda>x. concat (map (\<lambda>y. map (\<lambda>z. solvedCubie x y z) [-1..1]) [-1..1])) [-1..1])"

text \<open>
  The position update of \<open>rotateLayer\<close>: \<open>newPos\<close> starts as a copy of the
  position and is overwritten by the three \<open>if (axis === k)\<close> statements in turn.
\<close>

definition rotatePos :: "int \<Rightarrow> bool \<Rightarrow> int \<times> int \<times> int \<Rightarrow> int \<times> int \<times> int" where
  "rotatePos axis clockwise p =
     (case p of (x, y, z) \<Rightarrow>
        let newPos = (x, y, z);
            newPos = (if axis = 0
                      then (x, if clockwise then - z else z, if clockwise then y else - y)
                      else newPos);
            newPos = (if axis = 1
                      then (if clockwise then z else - z, y, if clockwise then - x else x)
                      else newPos);
            newPos = (if axis = 2
                      then (if clockwise then - y else y, if clockwise then x else - x, z)
                      else newPos)
        in newPos)"

text \<open>The slice test of \<open>rotateLayer\<close>.\<close>

definition inSlice :: "int \<Rightarrow> int \<Rightarrow> int \<times> int \<times> int \<Rightarrow> bool" where
  "inSlice axis v p =
     (case p of (x, y, z) \<Rightarrow>
        (axis = 0 \<and> x = v) \<or> (axis = 1 \<and> y = v) \<or> (axis = 2 \<and> z = v))"

text \<open>
  The callback of \<open>cubies.map\<close> in \<open>rotateLayer\<close>: a cubie of the slice is
  copied with \<open>pos\<close> and \<open>orientation\<close> replaced, any other cubie is copied as it is.
\<close>

definition rotateCubie :: "int \<Rightarrow> int \<Rightarrow> bool \<Rightarrow> cubie \<Rightarrow> cubie" where
  "rotateCubie axis v clockwise c =
     (if inSlice axis v (pos c)
      then c\<lparr>pos := rotatePos axis clockwise (pos c),
             orientation := rotateOrientation axis (orientation c) clockwise\<rparr>
      else c)"

definition rotateLayer :: "cubie list \<Rightarrow> int \<Rightarrow> int \<Rightarrow> bool \<Rightarrow> cubie list" where
  "rotateLayer cubies axis v clockwise = map (rotateCubie axis v clockwise) cubies"

section \<open>The handlers of the cube component\<close>

text \<open>
  The component state is the \<open>cubies\<close> array; every handler replaces it by a new
  array. The handler \<open>rotate\<close> (here \<open>rotate_handler\<close>) runs its six
  \<open>if\<close> statements in turn, each queueing a
  functional update \<open>c => rotateLayer(c, ...)\<close>.
\<close>

definition rotate_handler :: "string \<Rightarrow> bool \<Rightarrow> cubie list \<Rightarrow> cubie list" where
  "rotate_handler layer clockwise c0 =
     (let c = (if layer = ''U'' then rotateLayer c0 1 1 clockwise else c0);
          c = (if layer = ''D'' then rotateLayer c 1 (- 1) clockwise else c);
          c = (if layer = ''F'' then rotateLayer c 2 1 clockwise else c);
          c = (if layer = ''B'' then rotateLayer c 2 (- 1) clockwise else c);
          c = (if layer = ''L'' then rotateLayer c 0 (- 1) clockwise else c);
          c = (if layer = ''R'' then rotateLayer c 0 1 clockwise else c)
      in c)"

text \<open>
  \<open>String.prototype.indexOf\<close>: the index of the first occurrence of \<open>pat\<close>,
  or -1.
\<close>

fun indexOf_from :: "string \<Rightarrow> string \<Rightarrow> int \<Rightarrow> int" where
  "indexOf_from [] pat i = (if pat = [] then i else - 1)"
| "indexOf_from (c # cs) pat i =
     (if take (length pat) (c # cs) = pat then i else indexOf_from cs pat (i + 1))"

definition indexOf :: "string \<Rightarrow> string \<Rightarrow> int" where
  "indexOf s pat = indexOf_from s pat 0"

text \<open>
  The remainder operator \<open>%\<close> on integers (the sign of the result is the sign of the
  dividend; the divisor is 3 here, never 0), and an array read, which gives
  \<open>undefined\<close> (\<open>None\<close>) out of range.
\<close>

definition js_rem :: "int \<Rightarrow> int \<Rightarrow> int" where
  "js_rem a b = sgn a * (\<bar>a\<bar> mod \<bar>b\<bar>)"

definition js_index :: "'a list \<Rightarrow> int \<Rightarrow> 'a option" where
  "js_index xs i = (if 0 \<le> i \<and> i < int (length xs) then Some (xs ! nat i) else None)"

definition moves :: "string list" where
  "moves = [''U'', ''D'', ''F'', ''B'', ''L'', ''R'']"

text \<open>
  The axis and slice arguments that one iteration of \<open>scramble\<close> passes to
  \<open>rotateLayer\<close> for the move letter \<open>move\<close>.
\<close>

definition scrambleLayer :: "string \<Rightarrow> int \<times> int option" where
  "scrambleLayer move =
     (js_rem (indexOf ''UDFBLR'' move) 3,
      js_index [1, - 1, 1, - 1, - 1, 1] (indexOf ''UDFBLR'' move))"

text \<open>
  The body of the loop of \<open>scramble\<close> after the two random draws. With the slice
  argument \<open>undefined\<close> no cubie passes the test \<open>x === value\<close>, and
  \<open>rotateLayer\<close> returns a copy of every cubie.
\<close>

definition scrambleMove :: "cubie list \<Rightarrow> string \<Rightarrow> bool \<Rightarrow> cubie list" where
  "scrambleMove tempCubies move clockwise =
     (case scrambleLayer move of
        (axis, Some v) \<Rightarrow> rotateLayer tempCubies axis v clockwise
      | (axis, None) \<Rightarrow> tempCubies)"

text \<open>
  \<open>scramble\<close>, with the random draws made explicit: \<open>rnd i\<close> is the pair of
  \<open>Math.floor(Math.random() * moves.length)\<close>, a number below 6, and
  \<open>Math.random() > 0.5\<close>, drawn in iteration \<open>i\<close> of the 20.
\<close>

definition scramble :: "cubie list \<Rightarrow> (nat \<Rightarrow> nat \<times> bool) \<Rightarrow> cubie list" where
  "scramble cubies rnd =
     fold (\<lambda>i tempCubies. scrambleMove tempCubies (moves ! fst (rnd i)) (snd (rnd i)))
       [0..<20] cubies"

definition reset :: "cubie list \<Rightarrow> cubie list" where
  "reset cubies = createSolvedCubeState"

text \<open>
  The states of the component: the initial state \<open>useState(createSolvedCubeState())\<close>
  and whatever the three handlers make of a state.
\<close>

inductive reachable :: "cubie list \<Rightarrow> bool" where
  initial: "reachable createSolvedCubeState"
| by_rotate: "reachable c \<Longrightarrow> reachable (rotate_handler layer clockwise c)"
| by_scramble: "reachable c \<Longrightarrow> (\<And>i. i < 20 \<Longrightarrow> fst (rnd i) < 6) \<Longrightarrow> reachable (scramble c rnd)"
| by_reset: "reachable c \<Longrightarrow> reachable (reset c)"

section \<open>The sudoku input handler of the board component\<close>

text \<open>
  The state of \<open>InteractiveBoard\<close>: the three \<open>useState\<close> cells
  \<open>isActive\<close>, \<open>moves\<close> (here \<open>boardMoves\<close>) and \<open>feedback\<close>.
\<close>

record board_state =
  isActive :: bool
  boardMoves :: "string list"
  feedback :: string

text \<open>
  \<open>/^[1-9]?$/.test(value)\<close>: from the start of the string, at most one
  character of the class \<open>1-9\<close>, then the end of the string (without the
  \<open>m\<close> flag \<open>$\<close> matches at the end of the input only).
\<close>

definition sudokuPattern :: "string \<Rightarrow> bool" where
  "sudokuPattern val =
     (case val of [] \<Rightarrow> True | [c] \<Rightarrow> c \<in> set ''123456789'' | _ \<Rightarrow> False)"

text \<open>
  \<open>handleSudokuInput\<close>: two guarded returns, then \<open>setFeedback\<close>. The
  state is passed in and returned.
\<close>

definition handleSudokuInput :: "board_state \<Rightarrow> int \<Rightarrow> int \<Rightarrow> string \<Rightarrow> board_state" where
  "handleSudokuInput s row col val =
     (if \<not> isActive s then s
      else if \<not> sudokuPattern val then s
      else s\<lparr>feedback :=
             (if val \<noteq> []
              then ''Placed '' @ val @ '' at row '' @ show_int (row + 1)
                     @ '', column '' @ show_int (col + 1)
              else ''Cell cleared'')\<rparr>)"

text \<open>
  The wording of the specification, "a single digit": one character, a decimal
  digit. It is compared with \<open>sudokuPattern\<close>, which is the code.
\<close>

definition spec_single_digit :: "string \<Rightarrow> bool" where
  "spec_single_digit val \<longleftrightarrow> (case val of [c] \<Rightarrow> c \<in> set ''0123456789'' | _ \<Rightarrow> False)"

section \<open>The sorted list of the statistics page\<close>

text \<open>
  A JavaScript number as far as the page's comparator can tell numbers apart:
  \<open>NaN\<close>, the two infinities, or a finite value.
\<close>

datatype jsnum = NaN | NegInf | Fin real | PosInf

text \<open>
  The subtraction \<open>a - b\<close>. The difference of two finite doubles is rounded,
  but it has the sign of the exact difference (or is an infinity of that sign), and
  \<open>sort\<close> reads only the sign; \<open>Fin (a - b)\<close> stands for it.
\<close>

fun js_sub :: "jsnum \<Rightarrow> jsnum \<Rightarrow> jsnum" where
  "js_sub NaN y = NaN"
| "js_sub x NaN = NaN"
| "js_sub (Fin a) (Fin b) = Fin (a - b)"
| "js_sub PosInf PosInf = NaN"
| "js_sub NegInf NegInf = NaN"
| "js_sub PosInf y = PosInf"
| "js_sub NegInf y = NegInf"
| "js_sub (Fin a) PosInf = NegInf"
| "js_sub (Fin a) NegInf = PosInf"

text \<open>
  The comparison \<open>a <= b\<close> of two numbers, false whenever one of them is
  \<open>NaN\<close>.
\<close>

fun js_le :: "jsnum \<Rightarrow> jsnum \<Rightarrow> bool" where
  "js_le NaN y = False"
| "js_le x NaN = False"
| "js_le NegInf y = True"
| "js_le x PosInf = True"
| "js_le (Fin a) (Fin b) = (a \<le> b)"
| "js_le (Fin a) NegInf = False"
| "js_le PosInf y = False"

text \<open>
  How \<open>sort\<close> reads the value \<open>v\<close> that the comparator returns for
  \<open>(a, b)\<close>: a \<open>NaN\<close> is taken as \<open>+0\<close>, and \<open>a\<close> need not be
  moved behind \<open>b\<close> when \<open>v \<le> 0\<close>.
\<close>

fun comesFirst :: "jsnum \<Rightarrow> bool" where
  "comesFirst NaN = True"
| "comesFirst NegInf = True"
| "comesFirst (Fin r) = (r \<le> 0)"
| "comesFirst PosInf = False"

text \<open>
  \<open>GameStat\<close> and the array \<open>gameStats\<close> are imported from
  \<open>@/data/gameStats\<close>, which is not among the sources. The record has the
  fields that the page reads (\<open>id\<close> is \<open>stat_id\<close> here), every numeric
  field a JavaScript number; the array is a parameter.
\<close>

record GameStat =
  stat_id :: string
  name :: string
  totalTimePlayed :: jsnum
  totalWins :: jsnum
  totalLosses :: jsnum
  sessionDurations :: "jsnum list"
  accuracy :: jsnum

text \<open>
  The comparator passed to \<open>sort\<close>. \<open>String.prototype.localeCompare\<close> is
  the collation of the host and is a parameter; it returns an integer.
\<close>

definition compareStats :: "(string \<Rightarrow> string \<Rightarrow> int) \<Rightarrow> string \<Rightarrow> GameStat \<Rightarrow> GameStat \<Rightarrow> jsnum" where
  "compareStats localeCompare sortBy a b =
     (if sortBy = ''name'' then Fin (real_of_int (localeCompare (name a) (name b)))
      else if sortBy = ''totalTimePlayed'' then js_sub (totalTimePlayed b) (totalTimePlayed a)
      else if sortBy = ''accuracy'' then js_sub (accuracy b) (accuracy a)
      else Fin 0)"

text \<open>
  \<open>Array.prototype.sort(compareFn)\<close> is a built-in of the language, specified
  as a stable sort: elements that compare equal keep their order. For a consistent
  comparator that fixes the result, which this insertion sort computes.
\<close>

fun insert_by :: "('a \<Rightarrow> 'a \<Rightarrow> jsnum) \<Rightarrow> 'a \<Rightarrow> 'a list \<Rightarrow> 'a list" where
  "insert_by cmp x [] = [x]"
| "insert_by cmp x (y # ys) =
     (if comesFirst (cmp x y) then x # y # ys else y # insert_by cmp x ys)"

definition array_sort :: "('a \<Rightarrow> 'a \<Rightarrow> jsnum) \<Rightarrow> 'a list \<Rightarrow> 'a list" where
  "array_sort cmp xs = foldr (insert_by cmp) xs []"

text \<open>
  Arrays are objects: \<open>sort\<close> sorts the array it is called on in place and
  returns the same reference, and the spread \<open>[...gameStats]\<close> allocates a new
  array. The store is a list of arrays, a reference is an index into it.
\<close>

type_synonym 'a heap = "'a list list"

definition spread :: "'a heap \<Rightarrow> nat \<Rightarrow> 'a heap \<times> nat" where
  "spread h a = (h @ [h ! a], length h)"

definition sort_in_place :: "('a \<Rightarrow> 'a \<Rightarrow> jsnum) \<Rightarrow> 'a heap \<Rightarrow> nat \<Rightarrow> 'a heap \<times> nat" where
  "sort_in_place cmp h a = (h[a := array_sort cmp (h ! a)], a)"

text \<open>
  \<open>[...gameStats].sort((a, b) => ...)\<close>, run on the store \<open>h\<close>.
\<close>

definition sortedStats ::
  "(string \<Rightarrow> string \<Rightarrow> int) \<Rightarrow> GameStat heap \<Rightarrow> nat \<Rightarrow> string \<Rightarrow> GameStat heap \<times> nat" where
  "sortedStats localeCompare h gameStats sortBy =
     (case spread h gameStats of
        (h1, copy) \<Rightarrow> sort_in_place (compareStats localeCompare sortBy) h1 copy)"

text \<open>
  What \<open>sort\<close> asks of a comparator, in terms of \<open>c a b \<le> 0\<close> ("a does not
  come after b"): any two values are comparable, and the relation is transitive.
\<close>

definition consistentComparator :: "('a \<Rightarrow> 'a \<Rightarrow> int) \<Rightarrow> bool" where
  "consistentComparator c \<longleftrightarrow>
     (\<forall>a b. c a b \<le> 0 \<or> c b a \<le> 0)
     \<and> (\<forall>a b d. c a b \<le> 0 \<and> c b d \<le> 0 \<longrightarrow> c a d \<le> 0)"

text \<open>
  A comparator and arrays to evaluate the sort on.
\<close>

definition byLength :: "string \<Rightarrow> string \<Rightarrow> int" where
  "byLength a b = int (length a) - int (length b)"

definition exampleStats :: "GameStat list" where
  "exampleStats =
     [\<lparr>stat_id = ''sudoku'', name = ''Sudoku'', totalTimePlayed = Fin 5400, totalWins = Fin 12,
       totalLosses = Fin 3, sessionDurations = [Fin 30, Fin 45], accuracy = Fin 80\<rparr>,
      \<lparr>stat_id = ''chess'', name = ''Chess'', totalTimePlayed = Fin 7200, totalWins = Fin 10,
       totalLosses = Fin 5, sessionDurations = [Fin 60], accuracy = Fin 92.5\<rparr>]"

definition accuracyStat :: "jsnum \<Rightarrow> GameStat" where
  "accuracyStat a =
     \<lparr>stat_id = ''game'', name = ''Game'', totalTimePlayed = Fin 0, totalWins = Fin 0,
      totalLosses = Fin 0, sessionDurations = [], accuracy = a\<rparr>"

section \<open>Predicates used to state the properties\<close>

text \<open>
  The 27 positions of the cube, and a state in which every one of them is the
  position of exactly one cubie.
\<close>

definition grid :: "(int \<times> int \<times> int) set" where
  "grid = {- 1, 0, 1} \<times> {- 1, 0, 1} \<times> {- 1, 0, 1}"

definition occupiesGrid :: "cubie list \<Rightarrow> bool" where
  "occupiesGrid cubies \<longleftrightarrow> distinct (map pos cubies) \<and> set (map pos cubies) = grid"

text \<open>Where \<open>rotateLayer\<close> puts a cubie that is at \<open>p\<close>.\<close>

definition movePos :: "int \<Rightarrow> int \<Rightarrow> bool \<Rightarrow> int \<times> int \<times> int \<Rightarrow> int \<times> int \<times> int" where
  "movePos axis v cw p = (if inSlice axis v p then rotatePos axis cw p else p)"

text \<open>The six face labels as a list.\<close>

definition all_faces :: "face list" where
  "all_faces = [U, D, F, B, L, R]"

text \<open>
  The colours the \<open>Cubie\<close> component gives its six materials, in the order of
  \<open>faceOrder\<close>: for each face, \<open>stickers[orientation[face]] || '#222'\<close>
  (the fallback replaces an empty colour string).
\<close>

definition faceOrder :: "face list" where
  "faceOrder = [R, L, F, B, U, D]"

definition cubieColors :: "face faces \<Rightarrow> string faces \<Rightarrow> string list" where
  "cubieColors ori st =
     map (\<lambda>face. let globalFace = faceAt ori face; s = faceAt st globalFace
                  in if s = [] then ''#222'' else s) faceOrder"

text \<open>
  The outward direction of each face, as \<open>getInitialCubieColors\<close> pairs the
  faces with the outer layers: \<open>U\<close> with \<open>y = 1\<close>, \<open>D\<close> with
  \<open>y = -1\<close>, \<open>F\<close> with \<open>z = 1\<close>, \<open>B\<close> with \<open>z = -1\<close>,
  \<open>L\<close> with \<open>x = -1\<close>, \<open>R\<close> with \<open>x = 1\<close>.
\<close>

definition faceDirection :: "face \<Rightarrow> int \<times> int \<times> int" where
  "faceDirection f =
     (case f of U \<Rightarrow> (0, 1, 0) | D \<Rightarrow> (0, - 1, 0) | F \<Rightarrow> (0, 0, 1)
              | B \<Rightarrow> (0, 0, - 1) | L \<Rightarrow> (- 1, 0, 0) | R \<Rightarrow> (1, 0, 0))"

text \<open>Every cubie of the state has a bijective orientation.\<close>

definition bijectiveOrientations :: "cubie list \<Rightarrow> bool" where
  "bijectiveOrientations cubies = list_all (\<lambda>c. bij (faceAt (orientation c))) cubies"

text \<open>
  The face whose outward direction is the image, under the position update of
  \<open>rotateLayer\<close>, of the outward direction of \<open>d\<close>: where a quarter turn
  of the layer carries a sticker that faces \<open>d\<close>.
\<close>

definition turnedFace :: "int \<Rightarrow> bool \<Rightarrow> face \<Rightarrow> face option" where
  "turnedFace axis cw d =
     find (\<lambda>d'. faceDirection d' = rotatePos axis cw (faceDirection d)) all_faces"

text \<open>
  The (axis, slice) pairs of the 20 \<open>rotateLayer\<close> calls of a scramble with the
  draws \<open>rnd\<close>. (The slice is \<open>undefined\<close> only for a move outside
  \<open>moves\<close>, which no draw below 6 selects; 0 stands in for it.)
\<close>

definition scrambledLayers :: "(nat \<Rightarrow> nat \<times> bool) \<Rightarrow> (int \<times> int) list" where
  "scrambledLayers rnd =
     map (\<lambda>i. case scrambleLayer (moves ! fst (rnd i)) of
                 (axis, Some v) \<Rightarrow> (axis, v) | (axis, None) \<Rightarrow> (axis, 0)) [0..<20]"

section \<open>Properties of the layer rotation\<close>

subsection \<open>Evaluating the solved state and the scramble table\<close>

lemma upto_m1_1: "[-1..1] = [-1, 0, 1::int]"
  by (simp add: upto.simps)

lemma show_int_small: "show_int (-1) = ''-1''" "show_int 0 = ''0''" "show_int 1 = ''1''"
  by (simp_all add: show_int_def show_nat.simps)

lemma createSolvedCubeState_unfold:
  "createSolvedCubeState =
    [solvedCubie (-1) (-1) (-1), solvedCubie (-1) (-1) 0, solvedCubie (-1) (-1) 1,
     solvedCubie (-1) 0 (-1), solvedCubie (-1) 0 0, solvedCubie (-1) 0 1,
     solvedCubie (-1) 1 (-1), solvedCubie (-1) 1 0, solvedCubie (-1) 1 1,
     solvedCubie 0 (-1) (-1), solvedCubie 0 (-1) 0, solvedCubie 0 (-1) 1,
     solvedCubie 0 0 (-1), solvedCubie 0 0 0, solvedCubie 0 0 1,
     solvedCubie 0 1 (-1), solvedCubie 0 1 0, solvedCubie 0 1 1,
     solvedCubie 1 (-1) (-1), solvedCubie 1 (-1) 0, solvedCubie 1 (-1) 1,
     solvedCubie 1 0 (-1), solvedCubie 1 0 0, solvedCubie 1 0 1,
     solvedCubie 1 1 (-1), solvedCubie 1 1 0, solvedCubie 1 1 1]"
  by (simp add: createSolvedCubeState_def upto_m1_1)

lemma scrambleLayer_moves:
  "scrambleLayer ''U'' = (0, Some 1)" "scrambleLayer ''D'' = (1, Some (-1))"
  "scrambleLayer ''F'' = (2, Some 1)" "scrambleLayer ''B'' = (0, Some (-1))"
  "scrambleLayer ''L'' = (1, Some (-1))" "scrambleLayer ''R'' = (2, Some 1)"
  by (simp_all add: scrambleLayer_def indexOf_def js_rem_def js_index_def)

subsection \<open>Four quarter turns\<close>

lemma rotateOrientation_four:
  "rotateOrientation axis (rotateOrientation axis (rotateOrientation axis
     (rotateOrientation axis ori cw) cw) cw) cw = ori"
  by (cases ori)
     (simp add: rotateOrientation_def rotateOrientation_x_def rotateOrientation_y_def
        rotateOrientation_z_def)

lemma inSlice_rotatePos: "inSlice axis v (rotatePos axis cw p) = inSlice axis v p"
  by (cases p) (auto simp: inSlice_def rotatePos_def)

lemma rotatePos_four:
  "rotatePos axis cw (rotatePos axis cw (rotatePos axis cw (rotatePos axis cw p))) = p"
  by (cases p) (simp add: rotatePos_def)

lemma rotateCubie_four:
  "rotateCubie axis v cw (rotateCubie axis v cw (rotateCubie axis v cw
     (rotateCubie axis v cw c))) = c"
  by (simp add: rotateCubie_def inSlice_rotatePos rotatePos_four rotateOrientation_four)

text \<open>
  C2. For every cube state, axis, slice value and turn direction, four successive
  calls of \<open>rotateLayer\<close> with the same arguments give back the state they
  started from: every cubie has its original position and orientation (and its other
  fields).
\<close>

theorem rotateLayer_four_times:
  "rotateLayer (rotateLayer (rotateLayer (rotateLayer cubies axis v cw) axis v cw)
     axis v cw) axis v cw = cubies"
  by (simp add: rotateLayer_def rotateCubie_four comp_def)


subsection \<open>What a rotation leaves alone\<close>

lemma rotateLayer_nth:
  "i < length cubies \<Longrightarrow> rotateLayer cubies axis v cw ! i = rotateCubie axis v cw (cubies ! i)"
  by (simp add: rotateLayer_def)

lemma rotateLayer_length: "length (rotateLayer cubies axis v cw) = length cubies"
  by (simp add: rotateLayer_def)

text \<open>
  C4. A cubie whose coordinate along the chosen axis differs from the slice value
  is the same after \<open>rotateLayer\<close>: position, orientation, stickers and key are
  what they were (and it is still at the same index of the array).
\<close>

theorem rotateLayer_outside_slice_unchanged:
  assumes "i < length cubies"
    and "pos (cubies ! i) = (x, y, z)"
    and "axis = 0 \<longrightarrow> x \<noteq> v"
    and "axis = 1 \<longrightarrow> y \<noteq> v"
    and "axis = 2 \<longrightarrow> z \<noteq> v"
  shows "pos (rotateLayer cubies axis v cw ! i) = pos (cubies ! i)
    \<and> orientation (rotateLayer cubies axis v cw ! i) = orientation (cubies ! i)
    \<and> stickers (rotateLayer cubies axis v cw ! i) = stickers (cubies ! i)
    \<and> key (rotateLayer cubies axis v cw ! i) = key (cubies ! i)
    \<and> rotateLayer cubies axis v cw ! i = cubies ! i"
proof -
  from assms(2-5) have "\<not> inSlice axis v (pos (cubies ! i))"
    by (auto simp: inSlice_def)
  then have "rotateCubie axis v cw (cubies ! i) = cubies ! i"
    by (simp add: rotateCubie_def)
  with assms(1) show ?thesis
    by (simp add: rotateLayer_nth)
qed

text \<open>The corner cubie at (-1, -1, -1) when the layer x = 1 is turned.\<close>

theorem rotateLayer_outside_slice_unchanged_witness:
  "pos (createSolvedCubeState ! 0) = (- 1, - 1, - 1)
   \<and> rotateLayer createSolvedCubeState 0 1 True ! 0 = createSolvedCubeState ! 0"
  using rotateLayer_outside_slice_unchanged
    [where i = 0 and cubies = createSolvedCubeState and x = "- 1" and y = "- 1" and z = "- 1"
       and axis = 0 and v = 1 and cw = True]
  by (simp add: createSolvedCubeState_unfold solvedCubie_def)

subsection \<open>The handlers are layer rotations\<close>

lemma rotateLayer_no_axis: "axis \<notin> {0, 1, 2} \<Longrightarrow> rotateLayer cubies axis v cw = cubies"
  by (simp add: rotateLayer_def rotateCubie_def inSlice_def map_idI split: prod.splits)

lemma rotate_is_rotateLayer: "\<exists>axis v. rotate_handler layer cw c = rotateLayer c axis v cw"
proof -
  consider "layer = ''U''" | "layer = ''D''" | "layer = ''F''" | "layer = ''B''"
    | "layer = ''L''" | "layer = ''R''"
    | "layer \<notin> {''U'', ''D'', ''F'', ''B'', ''L'', ''R''}"
    by auto
  then show ?thesis
  proof cases
    case 7
    then have "rotate_handler layer cw c = rotateLayer c 3 0 cw"
      by (simp add: rotate_handler_def rotateLayer_no_axis)
    then show ?thesis by blast
  qed (auto simp: rotate_handler_def)
qed

lemma scrambleMove_is_rotateLayer: "\<exists>axis v. scrambleMove c move cw = rotateLayer c axis v cw"
proof (cases "scrambleLayer move")
  case (Pair axis ov)
  show ?thesis
  proof (cases ov)
    case None
    with Pair have "scrambleMove c move cw = rotateLayer c 3 0 cw"
      by (simp add: scrambleMove_def rotateLayer_no_axis)
    then show ?thesis by blast
  next
    case (Some v)
    with Pair show ?thesis
      by (auto simp: scrambleMove_def)
  qed
qed

lemma fold_scrambleMove_invariant:
  assumes step: "\<And>c axis v cw. P c \<Longrightarrow> P (rotateLayer c axis v cw)"
  shows "P c \<Longrightarrow> P (fold (\<lambda>i t. scrambleMove t (ms i) (cws i)) is c)"
proof (induction "is" arbitrary: c)
  case Nil
  then show ?case by simp
next
  case (Cons i "is")
  obtain axis v where "scrambleMove c (ms i) (cws i) = rotateLayer c axis v (cws i)"
    using scrambleMove_is_rotateLayer by blast
  with Cons.prems step have "P (scrambleMove c (ms i) (cws i))"
    by simp
  then show ?case
    using Cons.IH by simp
qed

lemma scramble_invariant:
  assumes "\<And>c axis v cw. P c \<Longrightarrow> P (rotateLayer c axis v cw)" and "P c"
  shows "P (scramble c rnd)"
  unfolding scramble_def
  using fold_scrambleMove_invariant [of P c "\<lambda>i. moves ! fst (rnd i)" "\<lambda>i. snd (rnd i)"] assms
  by blast

lemma rotate_invariant:
  assumes "\<And>c axis v cw. P c \<Longrightarrow> P (rotateLayer c axis v cw)" and "P c"
  shows "P (rotate_handler layer cw c)"
  using rotate_is_rotateLayer [of layer cw c] assms by auto

lemma reachable_invariant:
  assumes init: "P createSolvedCubeState"
    and step: "\<And>c axis v cw. P c \<Longrightarrow> P (rotateLayer c axis v cw)"
  shows "reachable c \<Longrightarrow> P c"
proof (induction rule: reachable.induct)
  case initial
  show ?case by (rule init)
next
  case (by_rotate c layer clockwise)
  show ?case
    by (rule rotate_invariant [of P, OF step by_rotate.IH])
next
  case (by_scramble c rnd)
  show ?case
    by (rule scramble_invariant [of P, OF step by_scramble.IH])
next
  case (by_reset c)
  show ?case by (simp add: reset_def init)
qed

lemma stickers_rotateCubie: "stickers (rotateCubie axis v cw c) = stickers c"
  by (simp add: rotateCubie_def)

lemma key_rotateCubie: "key (rotateCubie axis v cw c) = key c"
  by (simp add: rotateCubie_def)

lemma stickers_rotateLayer: "map stickers (rotateLayer cubies axis v cw) = map stickers cubies"
  by (simp add: rotateLayer_def stickers_rotateCubie comp_def)

lemma key_rotateLayer: "map key (rotateLayer cubies axis v cw) = map key cubies"
  by (simp add: rotateLayer_def key_rotateCubie comp_def)

lemma stickers_solved:
  "list_all (\<lambda>c. stickers c = (case pos c of (x, y, z) \<Rightarrow> getInitialCubieColors x y z))
     createSolvedCubeState"
  by (simp add: createSolvedCubeState_unfold solvedCubie_def)

text \<open>
  C7. The stickers of a cubie are set when \<open>createSolvedCubeState\<close> builds
  it (from \<open>getInitialCubieColors\<close> at its position) and no rotation changes
  them: after \<open>rotateLayer\<close>, and so after the rotate handler and after a
  scramble, the cubie at every index has the stickers (and the key) it had before.
  Only \<open>pos\<close> and \<open>orientation\<close>, the two other fields, can differ.
\<close>

theorem stickers_never_change:
  "map stickers (rotateLayer cubies axis v cw) = map stickers cubies
   \<and> map key (rotateLayer cubies axis v cw) = map key cubies
   \<and> map stickers (rotate_handler layer cw cubies) = map stickers cubies
   \<and> map stickers (scramble cubies rnd) = map stickers cubies
   \<and> list_all (\<lambda>c. stickers c = (case pos c of (x, y, z) \<Rightarrow> getInitialCubieColors x y z))
       createSolvedCubeState"
proof -
  have step: "\<And>c axis v cw. map stickers c = map stickers cubies
      \<Longrightarrow> map stickers (rotateLayer c axis v cw) = map stickers cubies"
    by (simp add: stickers_rotateLayer)
  have "map stickers (rotate_handler layer cw cubies) = map stickers cubies"
    by (rule rotate_invariant [of "\<lambda>c. map stickers c = map stickers cubies", OF step refl])
  moreover have "map stickers (scramble cubies rnd) = map stickers cubies"
    by (rule scramble_invariant [of "\<lambda>c. map stickers c = map stickers cubies", OF step refl])
  ultimately show ?thesis
    by (simp add: stickers_rotateLayer key_rotateLayer stickers_solved)
qed

subsection \<open>Positions are permuted\<close>

lemma pos_rotateCubie: "pos (rotateCubie axis v cw c) = movePos axis v cw (pos c)"
  by (simp add: rotateCubie_def movePos_def)

lemma movePos_four:
  "movePos axis v cw (movePos axis v cw (movePos axis v cw (movePos axis v cw p))) = p"
  by (simp add: movePos_def inSlice_rotatePos rotatePos_four)

lemma inj_movePos: "inj (movePos axis v cw)"
proof (rule injI)
  fix p q
  assume "movePos axis v cw p = movePos axis v cw q"
  then have "movePos axis v cw (movePos axis v cw (movePos axis v cw (movePos axis v cw p)))
      = movePos axis v cw (movePos axis v cw (movePos axis v cw (movePos axis v cw q)))"
    by simp
  then show "p = q"
    by (simp only: movePos_four)
qed

lemma in_grid_iff:
  "(x, y, z) \<in> grid \<longleftrightarrow> x \<in> {- 1, 0, 1} \<and> y \<in> {- 1, 0, 1} \<and> z \<in> {- 1, 0, 1}"
  by (simp only: grid_def mem_Sigma_iff)

lemma neg_in_range: "- c \<in> {- 1, 0, 1} \<longleftrightarrow> c \<in> {- 1, 0, 1::int}"
  by auto

lemma rotatePos_grid: "p \<in> grid \<Longrightarrow> rotatePos axis cw p \<in> grid"
  by (cases p) (simp add: rotatePos_def in_grid_iff neg_in_range del: insert_iff)

lemma movePos_grid: "movePos axis v cw ` grid = grid"
proof (rule endo_inj_surj)
  show "finite grid" by (simp add: grid_def)
  show "movePos axis v cw ` grid \<subseteq> grid"
    by (auto simp: movePos_def rotatePos_grid)
  show "inj_on (movePos axis v cw) grid"
    using inj_movePos by (rule inj_on_subset) simp
qed

lemma occupiesGrid_rotateLayer:
  assumes "occupiesGrid cubies"
  shows "occupiesGrid (rotateLayer cubies axis v cw)"
proof -
  have m: "map pos (rotateLayer cubies axis v cw) = map (movePos axis v cw) (map pos cubies)"
    by (simp add: rotateLayer_def pos_rotateCubie comp_def)
  from assms have d: "distinct (map pos cubies)" and s: "set (map pos cubies) = grid"
    by (simp_all add: occupiesGrid_def)
  have i: "inj_on (movePos axis v cw) (set (map pos cubies))"
    using inj_movePos by (rule inj_on_subset) simp
  from d i have "distinct (map (movePos axis v cw) (map pos cubies))"
    by (rule distinct_map [THEN iffD2, OF conjI])
  moreover have "set (map (movePos axis v cw) (map pos cubies)) = grid"
    using s movePos_grid [of axis v cw] by (simp only: set_map)
  ultimately show ?thesis
    by (simp only: occupiesGrid_def m)
qed

lemma occupiesGrid_solved: "occupiesGrid createSolvedCubeState"
  by (simp add: occupiesGrid_def createSolvedCubeState_unfold solvedCubie_def grid_def)

lemma occupiesGrid_length: "occupiesGrid cubies \<Longrightarrow> length cubies = 27"
proof -
  assume a: "occupiesGrid cubies"
  then have "length cubies = card (set (map pos cubies))"
    by (metis occupiesGrid_def distinct_card length_map)
  also have "\<dots> = card grid" using a by (simp add: occupiesGrid_def)
  also have "\<dots> = 27" by (simp add: grid_def card_cartesian_product)
  finally show ?thesis .
qed

text \<open>
  C3. If the cubies of a state occupy exactly the 27 positions of the grid, each
  position once, then so do the cubies after any \<open>rotateLayer\<close> call (any
  axis, slice value and direction; the array still has 27 entries). Every state
  reachable from \<open>createSolvedCubeState\<close> by the rotate, scramble and reset
  handlers is such a state.
\<close>

theorem rotateLayer_permutes_positions:
  "(occupiesGrid cubies \<longrightarrow>
      occupiesGrid (rotateLayer cubies axis v cw)
      \<and> length (rotateLayer cubies axis v cw) = 27)
   \<and> (reachable cubies \<longrightarrow> occupiesGrid cubies)"
proof -
  have "reachable cubies \<Longrightarrow> occupiesGrid cubies"
    by (rule reachable_invariant [of occupiesGrid, OF occupiesGrid_solved occupiesGrid_rotateLayer])
  then show ?thesis
    by (simp add: occupiesGrid_rotateLayer occupiesGrid_length)
qed

text \<open>The solved state, a turn of the layer x = 1 of it, and the state after the R button.\<close>

theorem rotateLayer_permutes_positions_witness:
  "occupiesGrid createSolvedCubeState
   \<and> occupiesGrid (rotateLayer createSolvedCubeState 0 1 True)
   \<and> length (rotateLayer createSolvedCubeState 0 1 True) = 27
   \<and> reachable (rotate_handler ''R'' True createSolvedCubeState)
   \<and> occupiesGrid (rotate_handler ''R'' True createSolvedCubeState)"
  using rotateLayer_permutes_positions [of createSolvedCubeState 0 1 True]
    rotateLayer_permutes_positions [of "rotate_handler ''R'' True createSolvedCubeState" 0 1 True]
    occupiesGrid_solved reachable.initial reachable.by_rotate
  by simp

subsection \<open>Orientations stay bijections\<close>

lemma UNIV_face: "UNIV = set all_faces"
proof -
  have "f \<in> set all_faces" for f
    by (cases f) (simp_all add: all_faces_def)
  then show ?thesis by blast
qed

lemma bij_at_iff:
  fixes ori :: "face faces"
  shows "bij (faceAt ori) \<longleftrightarrow> distinct (map (faceAt ori) all_faces)"
proof -
  have fin: "finite (UNIV :: face set)"
    by (simp only: UNIV_face) simp
  have "distinct (map (faceAt ori) all_faces) \<longleftrightarrow> inj (faceAt ori)"
    by (simp only: distinct_map UNIV_face) (simp add: all_faces_def)
  moreover have "inj (faceAt ori) \<longleftrightarrow> bij (faceAt ori)"
  proof
    assume i: "inj (faceAt ori)"
    from fin i have "surj (faceAt ori)"
      by (rule finite_UNIV_inj_surj)
    with i show "bij (faceAt ori)"
      by (simp add: bij_def)
  next
    assume "bij (faceAt ori)"
    then show "inj (faceAt ori)"
      by (rule bij_is_inj)
  qed
  ultimately show ?thesis by simp
qed

lemma bij_rotateOrientation_x:
  fixes ori :: "face faces"
  shows "bij (faceAt ori) \<Longrightarrow> bij (faceAt (rotateOrientation_x ori cw))"
  by (simp add: bij_at_iff all_faces_def rotateOrientation_x_def) auto

lemma bij_rotateOrientation_y:
  fixes ori :: "face faces"
  shows "bij (faceAt ori) \<Longrightarrow> bij (faceAt (rotateOrientation_y ori cw))"
  by (simp add: bij_at_iff all_faces_def rotateOrientation_y_def) auto

lemma bij_rotateOrientation_z:
  fixes ori :: "face faces"
  shows "bij (faceAt ori) \<Longrightarrow> bij (faceAt (rotateOrientation_z ori cw))"
  by (simp add: bij_at_iff all_faces_def rotateOrientation_z_def) auto

lemma bij_identity_orientation: "bij (faceAt identity_orientation)"
  by (simp add: bij_at_iff all_faces_def identity_orientation_def)

lemma bij_rotateCubie:
  "bij (faceAt (orientation c)) \<Longrightarrow> bij (faceAt (orientation (rotateCubie axis v cw c)))"
  by (simp add: rotateCubie_def rotateOrientation_def bij_rotateOrientation_x
      bij_rotateOrientation_y bij_rotateOrientation_z)

lemma bijectiveOrientations_rotateLayer:
  "bijectiveOrientations cubies \<Longrightarrow> bijectiveOrientations (rotateLayer cubies axis v cw)"
  by (simp add: bijectiveOrientations_def rotateLayer_def list_all_iff bij_rotateCubie)

lemma bijectiveOrientations_solved: "bijectiveOrientations createSolvedCubeState"
  by (simp add: bijectiveOrientations_def createSolvedCubeState_unfold solvedCubie_def
      bij_identity_orientation)

text \<open>
  C6. Each of the three \<open>rotateOrientation\<close> functions, in either direction,
  turns an orientation that is a bijection on the six face labels into one that is
  again a bijection, and in every state reachable from \<open>createSolvedCubeState\<close>
  by the rotate, scramble and reset handlers the orientation of every cubie is a
  bijection on the six face labels.
\<close>

theorem orientation_always_bijective:
  fixes ori :: "face faces"
  shows "(bij (faceAt ori) \<longrightarrow>
      bij (faceAt (rotateOrientation_x ori cw))
      \<and> bij (faceAt (rotateOrientation_y ori cw))
      \<and> bij (faceAt (rotateOrientation_z ori cw)))
   \<and> (reachable cubies \<longrightarrow> list_all (\<lambda>c. bij (faceAt (orientation c))) cubies)"
proof -
  have "reachable cubies \<Longrightarrow> bijectiveOrientations cubies"
    by (rule reachable_invariant [of bijectiveOrientations,
          OF bijectiveOrientations_solved bijectiveOrientations_rotateLayer])
  then show ?thesis
    by (simp add: bijectiveOrientations_def bij_rotateOrientation_x bij_rotateOrientation_y
        bij_rotateOrientation_z)
qed

text \<open>The identity orientation and the state after the F button.\<close>

theorem orientation_always_bijective_witness:
  "bij (faceAt identity_orientation)
   \<and> bij (faceAt (rotateOrientation_x identity_orientation True))
   \<and> bij (faceAt (rotateOrientation_y identity_orientation True))
   \<and> bij (faceAt (rotateOrientation_z identity_orientation True))
   \<and> reachable (rotate_handler ''F'' True createSolvedCubeState)
   \<and> list_all (\<lambda>c. bij (faceAt (orientation c))) (rotate_handler ''F'' True createSolvedCubeState)"
  using orientation_always_bijective
      [of identity_orientation True "rotate_handler ''F'' True createSolvedCubeState"]
    bij_identity_orientation reachable.initial reachable.by_rotate
  by simp

subsection \<open>Reset\<close>


subsection \<open>The layers of a scramble\<close>

lemma moves_nth:
  "k < 6 \<Longrightarrow> moves ! k \<in> {''U'', ''D'', ''F'', ''B'', ''L'', ''R''}"
proof -
  assume "k < 6"
  then consider "k = 0" | "k = 1" | "k = 2" | "k = 3" | "k = 4" | "k = 5"
    by linarith
  then show ?thesis
    by cases (simp_all add: moves_def)
qed

lemma scrambleLayer_drawn:
  assumes "k < 6"
  shows "scrambleLayer (moves ! k) \<in> {(0, Some 1), (0, Some (- 1)), (1, Some (- 1)), (2, Some 1)}"
  using moves_nth [OF assms] by (auto simp: scrambleLayer_moves)

lemma scrambleMove_moves:
  "scrambleMove c ''U'' cw = rotateLayer c 0 1 cw"
  "scrambleMove c ''D'' cw = rotateLayer c 1 (- 1) cw"
  "scrambleMove c ''F'' cw = rotateLayer c 2 1 cw"
  "scrambleMove c ''B'' cw = rotateLayer c 0 (- 1) cw"
  "scrambleMove c ''L'' cw = rotateLayer c 1 (- 1) cw"
  "scrambleMove c ''R'' cw = rotateLayer c 2 1 cw"
  by (simp_all add: scrambleMove_def scrambleLayer_moves)

lemma rotate_handler_layers:
  "rotate_handler ''U'' cw c = rotateLayer c 1 1 cw"
  "rotate_handler ''D'' cw c = rotateLayer c 1 (- 1) cw"
  "rotate_handler ''F'' cw c = rotateLayer c 2 1 cw"
  "rotate_handler ''B'' cw c = rotateLayer c 2 (- 1) cw"
  "rotate_handler ''L'' cw c = rotateLayer c 0 (- 1) cw"
  "rotate_handler ''R'' cw c = rotateLayer c 0 1 cw"
  by (simp_all add: rotate_handler_def)

lemma scrambledLayers_set:
  assumes "\<forall>i<20. fst (rnd i) < 6"
  shows "set (scrambledLayers rnd) \<subseteq> {(0, 1), (0, - 1), (1, - 1), (2, 1)}"
proof
  fix l
  assume "l \<in> set (scrambledLayers rnd)"
  then obtain i where i: "i < 20"
    and l: "l = (case scrambleLayer (moves ! fst (rnd i)) of
                   (axis, Some v) \<Rightarrow> (axis, v) | (axis, None) \<Rightarrow> (axis, 0))"
    by (auto simp: scrambledLayers_def)
  from i assms have "fst (rnd i) < 6" by simp
  from scrambleLayer_drawn [OF this] l
  show "l \<in> {(0, 1), (0, - 1), (1, - 1), (2, 1)}"
    by auto
qed

lemma scramble_as_rotations:
  assumes "\<forall>i<20. fst (rnd i) < 6"
  shows "scramble c rnd =
     fold (\<lambda>i t. rotateLayer t (fst (scrambledLayers rnd ! i)) (snd (scrambledLayers rnd ! i))
                    (snd (rnd i))) [0..<20] c"
  unfolding scramble_def
proof (rule fold_cong [OF refl refl])
  fix i :: nat
  assume "i \<in> set [0..<20]"
  then have i: "i < 20" by simp
  with assms have "fst (rnd i) < 6" by simp
  from scrambleLayer_drawn [OF this]
  have "scrambleMove t (moves ! fst (rnd i)) (snd (rnd i)) =
      rotateLayer t (fst (scrambledLayers rnd ! i)) (snd (scrambledLayers rnd ! i)) (snd (rnd i))"
    for t
    using i by (auto simp: scrambleMove_def scrambledLayers_def)
  then show "(\<lambda>t. scrambleMove t (moves ! fst (rnd i)) (snd (rnd i))) =
      (\<lambda>t. rotateLayer t (fst (scrambledLayers rnd ! i)) (snd (scrambledLayers rnd ! i))
              (snd (rnd i)))"
    by (rule ext)
qed

text \<open>
  C9. For the move letters U, B, L, R one iteration of \<open>scramble\<close> calls
  \<open>rotateLayer\<close> with (axis, slice) = (0, 1), (0, -1), (1, -1), (2, 1): the
  layers that the rotate handler turns for R, L, D, F. For D and F it turns the
  layer the handler turns. So a move drawn from \<open>moves\<close> always turns one of
  the four layers (0, 1), (0, -1), (1, -1), (2, 1), and a scramble is 20 rotations
  of layers from that set: never the layer y = 1 (axis 1, slice 1) nor the layer
  z = -1 (axis 2, slice -1).
\<close>

theorem scramble_turns_four_layers:
  "scrambleMove c ''U'' cw = rotateLayer c 0 1 cw
   \<and> scrambleMove c ''U'' cw = rotate_handler ''R'' cw c
   \<and> scrambleMove c ''B'' cw = rotateLayer c 0 (- 1) cw
   \<and> scrambleMove c ''B'' cw = rotate_handler ''L'' cw c
   \<and> scrambleMove c ''L'' cw = rotateLayer c 1 (- 1) cw
   \<and> scrambleMove c ''L'' cw = rotate_handler ''D'' cw c
   \<and> scrambleMove c ''R'' cw = rotateLayer c 2 1 cw
   \<and> scrambleMove c ''R'' cw = rotate_handler ''F'' cw c
   \<and> scrambleMove c ''D'' cw = rotate_handler ''D'' cw c
   \<and> scrambleMove c ''F'' cw = rotate_handler ''F'' cw c
   \<and> (k < 6 \<longrightarrow> scrambleLayer (moves ! k)
            \<in> {(0, Some 1), (0, Some (- 1)), (1, Some (- 1)), (2, Some 1)})
   \<and> ((\<forall>i<20. fst (rnd i) < 6) \<longrightarrow>
        length (scrambledLayers rnd) = 20
        \<and> set (scrambledLayers rnd) \<subseteq> {(0, 1), (0, - 1), (1, - 1), (2, 1)}
        \<and> (1, 1) \<notin> set (scrambledLayers rnd)
        \<and> (2, - 1) \<notin> set (scrambledLayers rnd)
        \<and> scramble c rnd =
            fold (\<lambda>i t. rotateLayer t (fst (scrambledLayers rnd ! i))
                           (snd (scrambledLayers rnd ! i)) (snd (rnd i))) [0..<20] c)"
proof -
  have len: "length (scrambledLayers rnd) = 20"
    by (simp add: scrambledLayers_def)
  have notin: "(1, 1) \<notin> set (scrambledLayers rnd) \<and> (2, - 1) \<notin> set (scrambledLayers rnd)"
    if "\<forall>i<20. fst (rnd i) < 6"
    using scrambledLayers_set [OF that] by auto
  show ?thesis
    using len notin scrambledLayers_set [of rnd] scramble_as_rotations [of rnd c]
      scrambleLayer_drawn [of k]
    by (simp add: scrambleMove_moves rotate_handler_layers)
qed

text \<open>The first move letter, and a scramble whose draws run through the six moves.\<close>

theorem scramble_turns_four_layers_witness:
  "scrambleLayer (moves ! 0) = (0, Some 1)
   \<and> set (scrambledLayers (\<lambda>i. (i mod 6, even i))) \<subseteq> {(0, 1), (0, - 1), (1, - 1), (2, 1)}
   \<and> scramble createSolvedCubeState (\<lambda>i. (i mod 6, even i)) =
        fold (\<lambda>i t. rotateLayer t (fst (scrambledLayers (\<lambda>i. (i mod 6, even i)) ! i))
                       (snd (scrambledLayers (\<lambda>i. (i mod 6, even i)) ! i)) (even i))
          [0..<20] createSolvedCubeState"
proof -
  have k: "(0::nat) < 6" by simp
  have r: "\<forall>i<20. fst (i mod 6, even i) < (6::nat)" by simp
  show ?thesis
    using scramble_turns_four_layers [of createSolvedCubeState True 0 "\<lambda>i. (i mod 6, even i)"] k r
    by (simp add: moves_def scrambleLayer_moves)
qed

subsection \<open>Orientation against position\<close>

lemma turnedFace_x:
  "turnedFace 0 cw U = Some (if cw then F else B)"
  "turnedFace 0 cw F = Some (if cw then D else U)"
  "turnedFace 0 cw D = Some (if cw then B else F)"
  "turnedFace 0 cw B = Some (if cw then U else D)"
  "turnedFace 0 cw L = Some L"
  "turnedFace 0 cw R = Some R"
  by (simp_all add: turnedFace_def all_faces_def faceDirection_def rotatePos_def)

lemma turnedFace_y:
  "turnedFace 1 cw F = Some (if cw then R else L)"
  "turnedFace 1 cw R = Some (if cw then B else F)"
  "turnedFace 1 cw B = Some (if cw then L else R)"
  "turnedFace 1 cw L = Some (if cw then F else B)"
  "turnedFace 1 cw U = Some U"
  "turnedFace 1 cw D = Some D"
  by (simp_all add: turnedFace_def all_faces_def faceDirection_def rotatePos_def)

lemma turnedFace_z:
  "turnedFace 2 cw U = Some (if cw then L else R)"
  "turnedFace 2 cw L = Some (if cw then D else U)"
  "turnedFace 2 cw D = Some (if cw then R else L)"
  "turnedFace 2 cw R = Some (if cw then U else D)"
  "turnedFace 2 cw F = Some F"
  "turnedFace 2 cw B = Some B"
  by (simp_all add: turnedFace_def all_faces_def faceDirection_def rotatePos_def)

lemma orientation_rotateCubie:
  "inSlice axis v (pos c) \<Longrightarrow>
     orientation (rotateCubie axis v cw c) = rotateOrientation axis (orientation c) cw"
  by (simp add: rotateCubie_def)

lemma rotateCubie_x_orientation_follows:
  assumes "inSlice 0 v (pos c)" and "turnedFace 0 cw d = Some d'"
  shows "faceAt (orientation (rotateCubie 0 v cw c)) d' = faceAt (orientation c) d"
  using assms(2)
  by (cases d; cases cw)
    (auto simp: orientation_rotateCubie [OF assms(1)] turnedFace_x rotateOrientation_def
       rotateOrientation_x_def)

lemma rotateOrientation_y_twice:
  "rotateOrientation_y (rotateOrientation_y ori cw) cw = ori"
  by (cases ori) (simp add: rotateOrientation_y_def)

lemma rotateCubie_z_orientation_reversed:
  assumes "inSlice 2 v (pos c)" and "turnedFace 2 cw d = Some d'"
  shows "faceAt (orientation (rotateCubie 2 v cw c)) d = faceAt (orientation c) d'"
  using assms(2)
  by (cases d; cases cw)
    (auto simp: orientation_rotateCubie [OF assms(1)] turnedFace_z rotateOrientation_def
       rotateOrientation_z_def)

lemma solved_17: "createSolvedCubeState ! 17 = solvedCubie 0 1 1"
  by (simp add: createSolvedCubeState_unfold)

lemma length_solved: "length createSolvedCubeState = 27"
  by (simp add: createSolvedCubeState_unfold)

lemma rotated_17:
  "rotateLayer createSolvedCubeState axis v cw ! 17 = rotateCubie axis v cw (solvedCubie 0 1 1)"
  by (simp add: rotateLayer_nth length_solved solved_17)

text \<open>
  C1. The claim: on the cubies of the slice \<open>rotateLayer\<close> applies the quarter
  turn of the positions and the relabelling of the orientation that this turn
  induces, so that a sticker facing \<open>d\<close> faces \<open>turnedFace axis cw d\<close>
  afterwards. (The \<open>Cubie\<close> component draws on its face \<open>d\<close> the colour
  \<open>stickers[orientation[d]]\<close>: \<open>orientation[d]\<close> names the sticker that
  faces \<open>d\<close>.) This holds for axis 0 (\<open>rotateCubie_x_orientation_follows\<close>). For
  axis 1 the relabelling swaps two pairs of faces (\<open>rotateOrientation_y_twice\<close>)
  and for axis 2 it is the quarter turn in the opposite direction
  (\<open>rotateCubie_z_orientation_reversed\<close>). Evaluated on the solved state, for
  the edge cubie at (0, 1, 1), with white on U and green on F: turning the layer
  y = 1 moves it to (1, 1, 0), where its green sticker should face R and is shown
  on L; turning the layer z = 1 moves it to (-1, 0, 1), where its white sticker
  should face L and is shown on R.
\<close>

theorem rotateLayer_y_z_orientation_mismatch:
  "pos (createSolvedCubeState ! 17) = (0, 1, 1)
   \<and> orientation (createSolvedCubeState ! 17) = identity_orientation
   \<and> faceAt (stickers (createSolvedCubeState ! 17)) F = ''#43a047''
   \<and> faceAt (stickers (createSolvedCubeState ! 17)) U = ''#ffffff''
   \<and> inSlice 1 1 (pos (createSolvedCubeState ! 17))
   \<and> pos (rotateLayer createSolvedCubeState 1 1 True ! 17) = (1, 1, 0)
   \<and> turnedFace 1 True F = Some R
   \<and> faceAt (orientation (rotateLayer createSolvedCubeState 1 1 True ! 17)) R = B
   \<and> faceAt (orientation (rotateLayer createSolvedCubeState 1 1 True ! 17)) L = F
   \<and> cubieColors (orientation (rotateLayer createSolvedCubeState 1 1 True ! 17))
        (stickers (rotateLayer createSolvedCubeState 1 1 True ! 17))
      = [''#222'', ''#43a047'', ''#222'', ''#222'', ''#ffffff'', ''#222'']
   \<and> inSlice 2 1 (pos (createSolvedCubeState ! 17))
   \<and> pos (rotateLayer createSolvedCubeState 2 1 True ! 17) = (- 1, 0, 1)
   \<and> turnedFace 2 True U = Some L
   \<and> faceAt (orientation (rotateLayer createSolvedCubeState 2 1 True ! 17)) L = D
   \<and> faceAt (orientation (rotateLayer createSolvedCubeState 2 1 True ! 17)) R = U
   \<and> cubieColors (orientation (rotateLayer createSolvedCubeState 2 1 True ! 17))
        (stickers (rotateLayer createSolvedCubeState 2 1 True ! 17))
      = [''#ffffff'', ''#222'', ''#43a047'', ''#222'', ''#222'', ''#222'']"
  by (simp add: rotated_17 solved_17 turnedFace_y turnedFace_z)
    (simp add: solvedCubie_def rotateCubie_def inSlice_def rotatePos_def rotateOrientation_def
      rotateOrientation_y_def rotateOrientation_z_def identity_orientation_def
      getInitialCubieColors_def FACE_COLORS_def cubieColors_def faceOrder_def)

section \<open>Properties of the sudoku input handler\<close>

text \<open>
  The statement of C8 as it is written fails in two ways. The empty string is not
  a single digit, yet it matches the pattern, and on an active board the handler
  sets the feedback to "Cell cleared". And on an inactive board the handler
  returns at its first guard, so it does not act on "5", which matches.
\<close>

theorem handleSudokuInput_accepts_empty_and_needs_active:
  "\<not> spec_single_digit ''''
   \<and> sudokuPattern ''''
   \<and> handleSudokuInput \<lparr>isActive = True, boardMoves = [], feedback = ''''\<rparr> 0 0 ''''
       = \<lparr>isActive = True, boardMoves = [], feedback = ''Cell cleared''\<rparr>
   \<and> spec_single_digit ''5''
   \<and> sudokuPattern ''5''
   \<and> handleSudokuInput \<lparr>isActive = False, boardMoves = [], feedback = ''''\<rparr> 0 0 ''5''
       = \<lparr>isActive = False, boardMoves = [], feedback = ''''\<rparr>"
  by (simp add: spec_single_digit_def sudokuPattern_def handleSudokuInput_def)

lemma sudokuPattern_iff:
  "sudokuPattern val \<longleftrightarrow> val = [] \<or> (\<exists>d \<in> set ''123456789''. val = [d])"
  by (cases val rule: list.exhaust; cases "tl val") (auto simp: sudokuPattern_def)

text \<open>
  C8, amended. On an active board \<open>handleSudokuInput\<close> sets the feedback
  exactly when the value is empty ("Cell cleared") or one character of
  \<open>1-9\<close> ("Placed d at row r + 1, column c + 1"). On an inactive board, and
  for every other value, it returns without any effect.
\<close>

theorem handleSudokuInput_when_active:
  "(isActive s \<and> val = [] \<longrightarrow>
      handleSudokuInput s row col val = s\<lparr>feedback := ''Cell cleared''\<rparr>)
   \<and> (isActive s \<and> (\<exists>d \<in> set ''123456789''. val = [d]) \<longrightarrow>
      handleSudokuInput s row col val =
        s\<lparr>feedback := ''Placed '' @ val @ '' at row '' @ show_int (row + 1)
                          @ '', column '' @ show_int (col + 1)\<rparr>)
   \<and> (\<not> isActive s \<longrightarrow> handleSudokuInput s row col val = s)
   \<and> (val \<noteq> [] \<and> (\<forall>d \<in> set ''123456789''. val \<noteq> [d]) \<longrightarrow>
      handleSudokuInput s row col val = s)"
proof -
  have "\<not> sudokuPattern val" if "val \<noteq> []" and "\<forall>d \<in> set ''123456789''. val \<noteq> [d]"
    using that by (simp only: sudokuPattern_iff) blast
  moreover have "sudokuPattern val" if "\<exists>d \<in> set ''123456789''. val = [d]"
    using that by (simp only: sudokuPattern_iff) blast
  moreover have "sudokuPattern []"
    by (simp add: sudokuPattern_def)
  ultimately show ?thesis
    by (auto simp: handleSudokuInput_def)
qed

text \<open>An active and an inactive board, with the values "", "7" and "0" for the cell in row 2, column 3.\<close>

theorem handleSudokuInput_when_active_witness:
  "handleSudokuInput \<lparr>isActive = True, boardMoves = [], feedback = ''''\<rparr> 2 3 ''''
     = \<lparr>isActive = True, boardMoves = [], feedback = ''Cell cleared''\<rparr>
   \<and> handleSudokuInput \<lparr>isActive = True, boardMoves = [], feedback = ''''\<rparr> 2 3 ''7''
     = \<lparr>isActive = True, boardMoves = [], feedback = ''Placed 7 at row 3, column 4''\<rparr>
   \<and> handleSudokuInput \<lparr>isActive = False, boardMoves = [], feedback = ''''\<rparr> 2 3 ''7''
     = \<lparr>isActive = False, boardMoves = [], feedback = ''''\<rparr>
   \<and> handleSudokuInput \<lparr>isActive = True, boardMoves = [], feedback = ''''\<rparr> 2 3 ''0''
     = \<lparr>isActive = True, boardMoves = [], feedback = ''''\<rparr>"
  using handleSudokuInput_when_active
      [of "\<lparr>isActive = True, boardMoves = [], feedback = ''''\<rparr>" "''''" 2 3]
    handleSudokuInput_when_active
      [of "\<lparr>isActive = True, boardMoves = [], feedback = ''''\<rparr>" "''7''" 2 3]
    handleSudokuInput_when_active
      [of "\<lparr>isActive = False, boardMoves = [], feedback = ''''\<rparr>" "''7''" 2 3]
    handleSudokuInput_when_active
      [of "\<lparr>isActive = True, boardMoves = [], feedback = ''''\<rparr>" "''0''" 2 3]
  by (simp add: show_int_def show_nat.simps)

section \<open>Properties of the sorted statistics\<close>

lemma mset_insert_by: "mset (insert_by cmp x ys) = add_mset x (mset ys)"
  by (induction ys) simp_all

lemma mset_array_sort: "mset (array_sort cmp xs) = mset xs"
  by (induction xs) (simp_all add: array_sort_def mset_insert_by)

lemma set_insert_by: "set (insert_by cmp x ys) = insert x (set ys)"
  using mset_insert_by [of cmp x ys, THEN arg_cong, of set_mset] by simp

lemma set_array_sort: "set (array_sort cmp xs) = set xs"
  using mset_array_sort [of cmp xs, THEN arg_cong, of set_mset] by simp

lemma sorted_insert_by:
  assumes total: "\<And>a b. a \<in> S \<Longrightarrow> b \<in> S \<Longrightarrow> comesFirst (cmp a b) \<or> comesFirst (cmp b a)"
    and trans: "\<And>a b d. a \<in> S \<Longrightarrow> b \<in> S \<Longrightarrow> d \<in> S \<Longrightarrow>
                  comesFirst (cmp a b) \<Longrightarrow> comesFirst (cmp b d) \<Longrightarrow> comesFirst (cmp a d)"
    and x: "x \<in> S"
  shows "set ys \<subseteq> S \<Longrightarrow> sorted_wrt (\<lambda>a b. comesFirst (cmp a b)) ys \<Longrightarrow>
           sorted_wrt (\<lambda>a b. comesFirst (cmp a b)) (insert_by cmp x ys)"
proof (induction ys)
  case Nil
  then show ?case by simp
next
  case (Cons y ys)
  from Cons.prems(1) have y: "y \<in> S" and ys: "set ys \<subseteq> S"
    by simp_all
  show ?case
  proof (cases "comesFirst (cmp x y)")
    case True
    have "comesFirst (cmp x z)" if "z \<in> set ys" for z
    proof -
      from that Cons.prems(2) have "comesFirst (cmp y z)" by simp
      moreover from that ys have "z \<in> S" by blast
      ultimately show ?thesis
        using trans [OF x y _ True] by blast
    qed
    with True Cons.prems(2) show ?thesis
      by simp
  next
    case False
    with total [OF x y] have "comesFirst (cmp y x)" by simp
    moreover from Cons.prems(2) have "sorted_wrt (\<lambda>a b. comesFirst (cmp a b)) ys"
      by simp
    ultimately show ?thesis
      using False Cons.prems(2) Cons.IH [OF ys] by (simp add: set_insert_by)
  qed
qed

lemma sorted_array_sort:
  assumes total: "\<And>a b. a \<in> S \<Longrightarrow> b \<in> S \<Longrightarrow> comesFirst (cmp a b) \<or> comesFirst (cmp b a)"
    and trans: "\<And>a b d. a \<in> S \<Longrightarrow> b \<in> S \<Longrightarrow> d \<in> S \<Longrightarrow>
                  comesFirst (cmp a b) \<Longrightarrow> comesFirst (cmp b d) \<Longrightarrow> comesFirst (cmp a d)"
  shows "set xs \<subseteq> S \<Longrightarrow> sorted_wrt (\<lambda>a b. comesFirst (cmp a b)) (array_sort cmp xs)"
proof (induction xs)
  case Nil
  show ?case by (simp add: array_sort_def)
next
  case (Cons x xs)
  from Cons.prems have x: "x \<in> S" and xs: "set xs \<subseteq> S"
    by simp_all
  have step: "array_sort cmp (x # xs) = insert_by cmp x (array_sort cmp xs)"
    by (simp add: array_sort_def)
  from xs have sub: "set (array_sort cmp xs) \<subseteq> S"
    by (simp add: set_array_sort)
  show ?case
    unfolding step
    by (rule sorted_insert_by [of S cmp, OF total trans x sub Cons.IH [OF xs]])
qed

lemma insert_by_first: "(\<And>y. comesFirst (cmp x y)) \<Longrightarrow> insert_by cmp x ys = x # ys"
  by (cases ys) simp_all

lemma array_sort_zero: "(\<And>a b. cmp a b = Fin 0) \<Longrightarrow> array_sort cmp xs = xs"
  by (induction xs) (simp_all add: array_sort_def insert_by_first)

lemma comesFirst_js_sub:
  "a \<noteq> NaN \<Longrightarrow> b \<noteq> NaN \<Longrightarrow> comesFirst (js_sub b a) = js_le b a"
  by (cases a; cases b) simp_all

lemma js_le_total: "a \<noteq> NaN \<Longrightarrow> b \<noteq> NaN \<Longrightarrow> js_le a b \<or> js_le b a"
  by (cases a; cases b) auto

lemma js_le_trans: "js_le a b \<Longrightarrow> js_le b d \<Longrightarrow> js_le a d"
  by (cases a; cases b; cases d) simp_all


lemma sortedStats_eq:
  "sortedStats lc h g sortBy =
     ((h @ [h ! g])[length h := array_sort (compareStats lc sortBy) (h ! g)], length h)"
  by (simp add: sortedStats_def spread_def sort_in_place_def)

lemma sortedStats_heap:
  assumes "g < length h"
  shows "fst (sortedStats lc h g sortBy) ! g = h ! g"
    and "fst (sortedStats lc h g sortBy) ! snd (sortedStats lc h g sortBy)
          = array_sort (compareStats lc sortBy) (h ! g)"
    and "snd (sortedStats lc h g sortBy) \<noteq> g"
    and "take (length h) (fst (sortedStats lc h g sortBy)) = h"
  using assms by (simp_all add: sortedStats_eq nth_append)

lemma consistent_byLength: "consistentComparator byLength"
  by (simp add: consistentComparator_def byLength_def) linarith

lemma consistentComparator_total:
  "consistentComparator c \<Longrightarrow> c a b \<le> 0 \<or> c b a \<le> 0"
  unfolding consistentComparator_def by blast

lemma consistentComparator_trans:
  "consistentComparator c \<Longrightarrow> c a b \<le> 0 \<Longrightarrow> c b d \<le> 0 \<Longrightarrow> c a d \<le> 0"
  unfolding consistentComparator_def by blast

lemma sorted_by_difference:
  fixes field :: "'a \<Rightarrow> jsnum"
  assumes "\<forall>g \<in> set xs. field g \<noteq> NaN"
  shows "sorted_wrt (\<lambda>a b. js_le (field b) (field a))
           (array_sort (\<lambda>a b. js_sub (field b) (field a)) xs)"
proof -
  let ?c = "\<lambda>a b. js_sub (field b) (field a)"
  have cf: "comesFirst (?c a b) = js_le (field b) (field a)"
    if "a \<in> set xs" and "b \<in> set xs" for a b
    using that assms by (simp add: comesFirst_js_sub)
  have "sorted_wrt (\<lambda>a b. comesFirst (?c a b)) (array_sort ?c xs)"
  proof (rule sorted_array_sort [of "set xs"])
    fix a b
    assume a: "a \<in> set xs" and b: "b \<in> set xs"
    from a b assms have "js_le (field b) (field a) \<or> js_le (field a) (field b)"
      by (simp add: js_le_total)
    with a b show "comesFirst (?c a b) \<or> comesFirst (?c b a)"
      by (simp add: cf)
  next
    fix a b d
    assume a: "a \<in> set xs" and b: "b \<in> set xs" and d: "d \<in> set xs"
      and "comesFirst (?c a b)" and "comesFirst (?c b d)"
    then have "js_le (field d) (field b)" and "js_le (field b) (field a)"
      by (simp_all add: cf)
    then have "js_le (field d) (field a)"
      by (rule js_le_trans)
    with a d show "comesFirst (?c a d)"
      by (simp add: cf)
  next
    show "set xs \<subseteq> set xs" by simp
  qed
  then show ?thesis
  proof (rule sorted_wrt_mono_rel [rotated])
    fix a b
    assume "a \<in> set (array_sort ?c xs)" and "b \<in> set (array_sort ?c xs)"
      and "comesFirst (?c a b)"
    then show "js_le (field b) (field a)"
      by (simp add: set_array_sort cf)
  qed
qed

text \<open>
  The statement of C10 as it is written, for every contents of the array, fails
  when an \<open>accuracy\<close> is \<open>NaN\<close>: the comparator then returns \<open>NaN\<close>,
  which \<open>sort\<close> reads as "equal". The array with the accuracies 1,
  \<open>NaN\<close>, 2 is rendered in this order under the key \<open>'accuracy'\<close>, with 1
  before 2, which is not descending.
\<close>

theorem sortedStats_nan_not_descending:
  "fst (sortedStats byLength
          [[accuracyStat (Fin 1), accuracyStat NaN, accuracyStat (Fin 2)]] 0 ''accuracy'')
     ! snd (sortedStats byLength
          [[accuracyStat (Fin 1), accuracyStat NaN, accuracyStat (Fin 2)]] 0 ''accuracy'')
     = [accuracyStat (Fin 1), accuracyStat NaN, accuracyStat (Fin 2)]
   \<and> accuracy (accuracyStat (Fin 1)) = Fin 1
   \<and> accuracy (accuracyStat (Fin 2)) = Fin 2
   \<and> \<not> js_le (Fin 2) (Fin 1)
   \<and> \<not> sorted_wrt (\<lambda>a b. js_le (accuracy b) (accuracy a))
         [accuracyStat (Fin 1), accuracyStat NaN, accuracyStat (Fin 2)]"
  by (simp add: sortedStats_eq array_sort_def compareStats_def accuracyStat_def)

text \<open>
  C10, amended. For every array \<open>gameStats\<close> of the store and every sort key,
  the list the page renders is a new array: \<open>gameStats\<close> and every other array
  that existed are unchanged. It is a permutation of \<open>gameStats\<close>, ascending by
  \<open>localeCompare\<close> of the names for \<open>'name'\<close> (for a consistent
  \<open>localeCompare\<close>), descending by \<open>totalTimePlayed\<close> for
  \<open>'totalTimePlayed'\<close> when no \<open>totalTimePlayed\<close> of the array is
  \<open>NaN\<close>, descending by \<open>accuracy\<close> for \<open>'accuracy'\<close> when no
  \<open>accuracy\<close> of the array is \<open>NaN\<close>, and in the original order for any
  other key.
\<close>

theorem sortedStats_sorted_copy:
  assumes "gameStats < length h"
  shows "fst (sortedStats localeCompare h gameStats sortBy) ! gameStats = h ! gameStats
    \<and> take (length h) (fst (sortedStats localeCompare h gameStats sortBy)) = h
    \<and> snd (sortedStats localeCompare h gameStats sortBy) \<noteq> gameStats
    \<and> mset (fst (sortedStats localeCompare h gameStats sortBy)
               ! snd (sortedStats localeCompare h gameStats sortBy)) = mset (h ! gameStats)
    \<and> (sortBy = ''name'' \<and> consistentComparator localeCompare \<longrightarrow>
          sorted_wrt (\<lambda>a b. localeCompare (name a) (name b) \<le> 0)
            (fst (sortedStats localeCompare h gameStats sortBy)
               ! snd (sortedStats localeCompare h gameStats sortBy)))
    \<and> (sortBy = ''totalTimePlayed'' \<and> (\<forall>g \<in> set (h ! gameStats). totalTimePlayed g \<noteq> NaN) \<longrightarrow>
          sorted_wrt (\<lambda>a b. js_le (totalTimePlayed b) (totalTimePlayed a))
            (fst (sortedStats localeCompare h gameStats sortBy)
               ! snd (sortedStats localeCompare h gameStats sortBy)))
    \<and> (sortBy = ''accuracy'' \<and> (\<forall>g \<in> set (h ! gameStats). accuracy g \<noteq> NaN) \<longrightarrow>
          sorted_wrt (\<lambda>a b. js_le (accuracy b) (accuracy a))
            (fst (sortedStats localeCompare h gameStats sortBy)
               ! snd (sortedStats localeCompare h gameStats sortBy)))
    \<and> (sortBy \<notin> {''name'', ''totalTimePlayed'', ''accuracy''} \<longrightarrow>
          fst (sortedStats localeCompare h gameStats sortBy)
            ! snd (sortedStats localeCompare h gameStats sortBy) = h ! gameStats)"
proof -
  let ?cmp = "compareStats localeCompare sortBy"
  let ?res = "fst (sortedStats localeCompare h gameStats sortBy)
                ! snd (sortedStats localeCompare h gameStats sortBy)"
  note heap = sortedStats_heap [OF assms, of localeCompare sortBy]
  have res: "?res = array_sort ?cmp (h ! gameStats)"
    by (rule heap(2))
  have by_name: "sorted_wrt (\<lambda>a b. localeCompare (name a) (name b) \<le> 0) ?res"
    if n: "sortBy = ''name''" and c: "consistentComparator localeCompare"
  proof -
    let ?c = "\<lambda>a b :: GameStat. Fin (real_of_int (localeCompare (name a) (name b)))"
    have eq: "?cmp = ?c"
      by (simp add: compareStats_def n fun_eq_iff)
    have "sorted_wrt (\<lambda>a b. comesFirst (?c a b)) (array_sort ?c (h ! gameStats))"
    proof (rule sorted_array_sort [of UNIV])
      fix a b :: GameStat
      from c have "localeCompare (name a) (name b) \<le> 0 \<or> localeCompare (name b) (name a) \<le> 0"
        by (rule consistentComparator_total)
      then show "comesFirst (?c a b) \<or> comesFirst (?c b a)"
        by simp
    next
      fix a b d :: GameStat
      assume "comesFirst (?c a b)" and "comesFirst (?c b d)"
      then have "localeCompare (name a) (name b) \<le> 0" and "localeCompare (name b) (name d) \<le> 0"
        by simp_all
      with c have "localeCompare (name a) (name d) \<le> 0"
        by (rule consistentComparator_trans)
      then show "comesFirst (?c a d)"
        by simp
    next
      show "set (h ! gameStats) \<subseteq> UNIV" by simp
    qed
    then show ?thesis
      by (simp add: res eq)
  qed
  have by_time: "sorted_wrt (\<lambda>a b. js_le (totalTimePlayed b) (totalTimePlayed a)) ?res"
    if t: "sortBy = ''totalTimePlayed''"
      and nn: "\<forall>g \<in> set (h ! gameStats). totalTimePlayed g \<noteq> NaN"
  proof -
    have eq: "?cmp = (\<lambda>a b. js_sub (totalTimePlayed b) (totalTimePlayed a))"
      by (simp add: compareStats_def t fun_eq_iff)
    show ?thesis
      unfolding res eq by (rule sorted_by_difference [OF nn])
  qed
  have by_accuracy: "sorted_wrt (\<lambda>a b. js_le (accuracy b) (accuracy a)) ?res"
    if t: "sortBy = ''accuracy''"
      and nn: "\<forall>g \<in> set (h ! gameStats). accuracy g \<noteq> NaN"
  proof -
    have eq: "?cmp = (\<lambda>a b. js_sub (accuracy b) (accuracy a))"
      by (simp add: compareStats_def t fun_eq_iff)
    show ?thesis
      unfolding res eq by (rule sorted_by_difference [OF nn])
  qed
  have other: "?res = h ! gameStats"
    if "sortBy \<notin> {''name'', ''totalTimePlayed'', ''accuracy''}"
  proof -
    have "?cmp a b = Fin 0" for a b
      using that by (simp add: compareStats_def)
    then show ?thesis
      by (simp only: res array_sort_zero)
  qed
  have m: "mset ?res = mset (h ! gameStats)"
    by (simp only: res mset_array_sort)
  show ?thesis
    by (intro conjI impI; (elim conjE)?;
        rule heap(1) heap(4) heap(3) m by_name by_time by_accuracy other; assumption)
qed

text \<open>
  The store holding \<open>exampleStats\<close> alone, sorted by each key with
  \<open>byLength\<close> for \<open>localeCompare\<close>.
\<close>

theorem sortedStats_sorted_copy_witness:
  "fst (sortedStats byLength [exampleStats] 0 ''name'') ! 0 = exampleStats
   \<and> sorted_wrt (\<lambda>a b. byLength (name a) (name b) \<le> 0)
        (fst (sortedStats byLength [exampleStats] 0 ''name'')
           ! snd (sortedStats byLength [exampleStats] 0 ''name''))
   \<and> sorted_wrt (\<lambda>a b. js_le (totalTimePlayed b) (totalTimePlayed a))
        (fst (sortedStats byLength [exampleStats] 0 ''totalTimePlayed'')
           ! snd (sortedStats byLength [exampleStats] 0 ''totalTimePlayed''))
   \<and> sorted_wrt (\<lambda>a b. js_le (accuracy b) (accuracy a))
        (fst (sortedStats byLength [exampleStats] 0 ''accuracy'')
           ! snd (sortedStats byLength [exampleStats] 0 ''accuracy''))
   \<and> fst (sortedStats byLength [exampleStats] 0 ''id'')
        ! snd (sortedStats byLength [exampleStats] 0 ''id'') = exampleStats
   \<and> fst (sortedStats byLength [exampleStats] 0 ''accuracy'')
        ! snd (sortedStats byLength [exampleStats] 0 ''accuracy'') = rev exampleStats"
proof -
  have v: "0 < length [exampleStats]" by simp
  have nt: "\<forall>g \<in> set ([exampleStats] ! 0). totalTimePlayed g \<noteq> NaN"
    by (simp add: exampleStats_def)
  have na: "\<forall>g \<in> set ([exampleStats] ! 0). accuracy g \<noteq> NaN"
    by (simp add: exampleStats_def)
  note t = sortedStats_sorted_copy [OF v, of byLength]
  have "fst (sortedStats byLength [exampleStats] 0 ''accuracy'')
        ! snd (sortedStats byLength [exampleStats] 0 ''accuracy'') = rev exampleStats"
    by (simp add: sortedStats_eq array_sort_def compareStats_def exampleStats_def)
  with t [of "''name''"] t [of "''totalTimePlayed''"] t [of "''accuracy''"] t [of "''id''"]
    consistent_byLength nt na
  show ?thesis
    by simp
qed

end
